theory Spec2Isabelle
  imports Complex_Main "HOL-Library.Word"
begin

section \<open>Screen-colour synchronisation of the LIFX control panel\<close>

text \<open>
  A shallow embedding of \<^verbatim>\<open>lifx_control_panel/utilities/color_thread.py\<close>: the two
  screen samplers, the stoppable thread \<^verbatim>\<open>ColorThread\<close>, and \<^verbatim>\<open>ColorThreadRunner\<close> with
  its worker loop \<^verbatim>\<open>match_color\<close>.

  Conventions of the embedding.
  \<^item> A Python exception is a value of \<open>exn\<close>; a call that may raise returns \<open>exn + 'a\<close>
    with \<open>Inl\<close> the exception.
  \<^item> Python integers are \<open>int\<close>. The transition duration is a Python float; it is
    modelled by an exact \<open>real\<close>, so rounding of the float product is not represented.
  \<^item> Everything the worker observes from outside in one pass through its loop (what the
    colour function returns for the screen at that moment, the contents of the global
    \<^verbatim>\<open>config\<close>, whether the bulb accepts the command) is one \<open>env\<close>; the loop consumes a
    list of them, one per pass. When the list is used up and the stop flag is still
    clear the outcome is \<open>StillRunning\<close>: the list is the amount of time the worker
    has been given.
  \<^item> Logger output and calls of \<^verbatim>\<open>bulb.set_color\<close> are appended to the \<open>trace\<close> of the
    runner, in program order.
\<close>

subsection \<open>Exceptions\<close>

datatype exn =
    OSError | TimeoutError | KeyError | ValueError | IndexError
  | RuntimeError | WorkflowException | KeyboardInterrupt | SystemExit

text \<open>\<^verbatim>\<open>except OSError\<close> matches \<^verbatim>\<open>OSError\<close> and its subclasses; of the exceptions above
  only \<^verbatim>\<open>TimeoutError\<close> is one.\<close>

definition isinstance_OSError :: "exn \<Rightarrow> bool" where
  "isinstance_OSError x = (x = OSError \<or> x = TimeoutError)"

subsection \<open>The configuration file\<close>

text \<open>
  \<^verbatim>\<open>config\<close> is a \<^verbatim>\<open>configparser\<close> object: sections of string-valued keys. A stored string
  is represented by what Python's \<^verbatim>\<open>int()\<close> and \<^verbatim>\<open>float()\<close> make of it: \<open>IntLit i\<close> is a
  string both accept, \<open>FloatLit x\<close> one that only \<^verbatim>\<open>float()\<close> accepts, \<open>Other s\<close> one
  that neither accepts (\<^verbatim>\<open>ValueError\<close>). A missing section or key raises \<^verbatim>\<open>KeyError\<close>.
\<close>

datatype raw = IntLit int | FloatLit real | Other string

type_synonym config = "string \<rightharpoonup> (string \<rightharpoonup> raw)"

definition config_get :: "config \<Rightarrow> string \<Rightarrow> string \<Rightarrow> exn + raw" where
  "config_get cfg sec key =
     (case cfg sec of
        None \<Rightarrow> Inl KeyError
      | Some s \<Rightarrow> (case s key of None \<Rightarrow> Inl KeyError | Some v \<Rightarrow> Inr v))"

fun py_float :: "raw \<Rightarrow> exn + real" where
  "py_float (IntLit i) = Inr (real_of_int i)"
| "py_float (FloatLit x) = Inr x"
| "py_float (Other s) = Inl ValueError"

fun py_int :: "raw \<Rightarrow> exn + int" where
  "py_int (IntLit i) = Inr i"
| "py_int (FloatLit x) = Inl ValueError"
| "py_int (Other s) = Inl ValueError"

text \<open>\<^verbatim>\<open>return float(config["AverageColor"]["duration"])\<close>\<close>

definition get_duration :: "config \<Rightarrow> exn + real" where
  "get_duration cfg =
     (case config_get cfg ''AverageColor'' ''duration'' of
        Inl x \<Rightarrow> Inl x
      | Inr v \<Rightarrow> py_float v)"

text \<open>\<^verbatim>\<open>return int(config["AverageColor"]["brightnessoffset"])\<close>\<close>

definition get_brightness_offset :: "config \<Rightarrow> exn + int" where
  "get_brightness_offset cfg =
     (case config_get cfg ''AverageColor'' ''brightnessoffset'' of
        Inl x \<Rightarrow> Inl x
      | Inr v \<Rightarrow> py_int v)"

subsection \<open>ColorThread\<close>

text \<open>
  A \<^verbatim>\<open>threading.Thread\<close> with a stop event. \<open>started\<close> is the thread's own
  \<^verbatim>\<open>_started\<close> flag, which \<^verbatim>\<open>Thread.start\<close> sets and never clears; \<open>stop_event\<close> is
  the event created in \<^verbatim>\<open>__init__\<close>.
\<close>

record color_thread =
  started :: bool
  stop_event :: bool

definition ColorThread :: color_thread where
  "ColorThread = \<lparr>started = False, stop_event = False\<rparr>"

definition stopped :: "color_thread \<Rightarrow> bool" where
  "stopped t = stop_event t"

subsection \<open>ColorThreadRunner\<close>

type_synonym color = "int list"

datatype level = DEBUG | INFO | ERROR

datatype event =
    Log level string
  | SetColor color real bool "exn option"
  | Excepthook exn

text \<open>
  \<open>SetColor c d rapid res\<close> records one call \<^verbatim>\<open>bulb.set_color(c, duration=d, rapid=rapid)\<close>;
  \<open>res\<close> is \<open>None\<close> when the call returned and \<open>Some x\<close> when it raised \<open>x\<close>.
  \<open>spawned\<close> counts the operating-system threads that \<^verbatim>\<open>Thread.start\<close> has launched
  for this runner.
\<close>

record runner =
  prev_color :: color
  continuous :: bool
  thread :: color_thread
  trace :: "event list"
  spawned :: nat

record env =
  color_function :: "color \<Rightarrow> exn + color"
  config :: config
  set_color_result :: "exn option"

definition logger :: "runner \<Rightarrow> level \<Rightarrow> string \<Rightarrow> runner" where
  "logger r l msg = r\<lparr>trace := trace r @ [Log l msg]\<rparr>"

text \<open>\<^verbatim>\<open>__init__\<close>: the baseline colour is read from the parent frame, the thread object
  is created but not started.\<close>

definition init_runner :: "color \<Rightarrow> bool \<Rightarrow> runner" where
  "init_runner parent_color cont =
     logger \<lparr>prev_color = parent_color, continuous = cont, thread = ColorThread,
             trace = [], spawned = 0\<rparr> INFO ''Initialized Thread''"

text \<open>\<^verbatim>\<open>stop\<close>: \<^verbatim>\<open>self.thread.stop()\<close> sets the event of the current thread object.\<close>

definition stop :: "runner \<Rightarrow> runner" where
  "stop r = r\<lparr>thread := (thread r)\<lparr>stop_event := True\<rparr>\<rparr>"

text \<open>
  \<^verbatim>\<open>start\<close>: when the current thread object has its stop event set, it is replaced by a
  new one. \<^verbatim>\<open>Thread.start\<close> raises \<^verbatim>\<open>RuntimeError\<close> on a thread object that was started
  before; the runner catches it and logs an error.
\<close>

definition start :: "runner \<Rightarrow> runner" where
  "start r =
     (let r1 = (if stopped (thread r) then r\<lparr>thread := ColorThread\<rparr> else r)
      in if started (thread r1)
         then logger r1 ERROR ''Tried to start ColorThread again.''
         else logger (r1\<lparr>thread := (thread r1)\<lparr>started := True\<rparr>,
                          spawned := spawned r1 + 1\<rparr>)
                DEBUG ''Thread started.'')"

subsection \<open>The worker loop\<close>

text \<open>
  The body of the \<^verbatim>\<open>try\<close> block of \<^verbatim>\<open>match_color\<close>, statement by statement:
  \<^verbatim>\<open>
    color = list(self.color_function(initial_color=self.prev_color, **self.kwargs))
    color[2] = min(color[2] + self.get_brightness_offset(), 65535)
    bulb.set_color(color, duration=self.get_duration() * 1000, rapid=self.continuous)
    self.prev_color = color
  \<close>
  \<^verbatim>\<open>color[2]\<close> raises \<^verbatim>\<open>IndexError\<close> on a list shorter than three. The result is the
  exception that left the block, if any, and the runner as the block left it.
\<close>

definition try_body :: "runner \<Rightarrow> env \<Rightarrow> (exn + unit) \<times> runner" where
  "try_body r e =
     (case color_function e (prev_color r) of
        Inl x \<Rightarrow> (Inl x, r)
      | Inr color \<Rightarrow>
          if length color < 3 then (Inl IndexError, r)
          else (case get_brightness_offset (config e) of
             Inl x \<Rightarrow> (Inl x, r)
           | Inr off \<Rightarrow>
               (let color' = color[2 := min (color ! 2 + off) 65535]
                in case get_duration (config e) of
                     Inl x \<Rightarrow> (Inl x, r)
                   | Inr d \<Rightarrow>
                       (let r1 = r\<lparr>trace := trace r @
                                  [SetColor color' (d * 1000) (continuous r)
                                     (set_color_result e)]\<rparr>
                        in case set_color_result e of
                             Some x \<Rightarrow> (Inl x, r1)
                           | None \<Rightarrow> (Inr (), r1\<lparr>prev_color := color'\<rparr>)))))"

datatype outcome = Finished | StillRunning | Raised exn

text \<open>
  \<^verbatim>\<open>while not self.thread.stopped():\<close> around the \<^verbatim>\<open>try\<close> block. An \<^verbatim>\<open>OSError\<close> is logged
  and the loop continues with the next pass, skipping the one-shot stop; any other
  exception leaves the loop and the function. After a pass without exception a runner
  that is not continuous calls \<^verbatim>\<open>self.stop()\<close>.
\<close>

fun match_color_loop :: "runner \<Rightarrow> env list \<Rightarrow> outcome \<times> runner" where
  "match_color_loop r [] =
     (if stopped (thread r) then (Finished, r) else (StillRunning, r))"
| "match_color_loop r (e # es) =
     (if stopped (thread r) then (Finished, r)
      else (case try_body r e of
              (Inl x, r') \<Rightarrow>
                if isinstance_OSError x
                then match_color_loop (logger r' INFO ''Hit an os error'') es
                else (Raised x, r')
            | (Inr u, r') \<Rightarrow>
                match_color_loop (if \<not> continuous r' then stop r' else r') es))"

text \<open>\<^verbatim>\<open>match_color\<close>: the baseline is read again from the parent frame, then the loop
  runs; the closing debug line is reached only when the loop ends normally.\<close>

definition match_color :: "runner \<Rightarrow> color \<Rightarrow> env list \<Rightarrow> outcome \<times> runner" where
  "match_color r parent_color es =
     (case match_color_loop
             ((logger r DEBUG ''Starting color match.'')\<lparr>prev_color := parent_color\<rparr>) es of
        (Finished, r') \<Rightarrow> (Finished, logger r' DEBUG ''Color match finished.'')
      | (StillRunning, r') \<Rightarrow> (StillRunning, r')
      | (Raised x, r') \<Rightarrow> (Raised x, r'))"

text \<open>
  \<^verbatim>\<open>install_thread_excepthook\<close> replaces \<^verbatim>\<open>Thread.run\<close>: an exception that leaves the
  thread's target is handed to \<^verbatim>\<open>sys.excepthook\<close> and \<^verbatim>\<open>run\<close> returns, except for
  \<^verbatim>\<open>KeyboardInterrupt\<close> and \<^verbatim>\<open>SystemExit\<close>, which are raised again. In every
  case other than \<open>StillRunning\<close> the thread has ended.
\<close>

definition run :: "runner \<Rightarrow> color \<Rightarrow> env list \<Rightarrow> outcome \<times> runner" where
  "run r parent_color es =
     (case match_color r parent_color es of
        (Raised x, r') \<Rightarrow>
          if x = KeyboardInterrupt \<or> x = SystemExit then (Raised x, r')
          else (Finished, r'\<lparr>trace := trace r' @ [Excepthook x]\<rparr>)
      | (Finished, r') \<Rightarrow> (Finished, r')
      | (StillRunning, r') \<Rightarrow> (StillRunning, r'))"

definition worker_ended :: "outcome \<Rightarrow> bool" where
  "worker_ended out = (out \<noteq> StillRunning)"

subsection \<open>The screen samplers\<close>

text \<open>
  A captured image is its size and its pixels in row-major order, three 8-bit channels
  each. Screen capture (\<^verbatim>\<open>mss\<close>), image resizing (\<^verbatim>\<open>PIL\<close>) and the colour-space conversion
  (\<^verbatim>\<open>lifxlan\<close>) are libraries outside the repository: the capture is an argument of the
  samplers (the screenshot of the selected monitor, or the exception the capture raised),
  and \<open>libs\<close> holds \<^verbatim>\<open>Image.resize\<close> with the Hamming filter and the hue, saturation and
  brightness that the conversion computes from an RGB triple.
\<close>

type_synonym pixel = "8 word \<times> 8 word \<times> 8 word"

record image =
  width :: nat
  height :: nat
  pixels :: "pixel list"

record libs =
  hsb_of :: "nat \<times> nat \<times> nat \<Rightarrow> int \<times> int \<times> int"
  resize :: "nat \<times> nat \<Rightarrow> image \<Rightarrow> exn + image"

text \<open>
  Modelled from the spec: \<^verbatim>\<open>utils.RGBtoHSBK\<close> of the \<^verbatim>\<open>lifxlan\<close> package is not among the
  source files. Following the spec ("convert the resulting RGB to device color-space,
  carrying the kelvin/temperature value forward"), it returns the converted hue,
  saturation and brightness followed by the \<^verbatim>\<open>temperature\<close> argument.
\<close>

definition RGBtoHSBK :: "libs \<Rightarrow> nat \<times> nat \<times> nat \<Rightarrow> int \<Rightarrow> int \<times> int \<times> int \<times> int" where
  "RGBtoHSBK L RGB temperature =
     (case hsb_of L RGB of (hue, saturation, brightness) \<Rightarrow>
        (hue, saturation, brightness, temperature))"

text \<open>\<^verbatim>\<open>list(...)\<close> of the returned 4-tuple.\<close>

definition list_of_hsbk :: "int \<times> int \<times> int \<times> int \<Rightarrow> color" where
  "list_of_hsbk t = (case t of (h, s, b, k) \<Rightarrow> [h, s, b, k])"

text \<open>\<^verbatim>\<open>getpixel((0, 0))\<close>: the first pixel, as a tuple of Python integers.\<close>

definition getpixel :: "image \<Rightarrow> exn + nat \<times> nat \<times> nat" where
  "getpixel img =
     (case pixels img of
        [] \<Rightarrow> Inl IndexError
      | (r, g, b) # ps \<Rightarrow> Inr (unat r, unat g, unat b))"

text \<open>
  \<^verbatim>\<open>np.bincount\<close> counts the occurrences of each value from 0 up to the largest one;
  \<^verbatim>\<open>argmax\<close> is the first position of the largest count and raises \<^verbatim>\<open>ValueError\<close> on an
  empty array; \<^verbatim>\<open>np.unravel_index(v, (256, 256, 256))\<close> splits a bucket number into its
  three coordinates and raises \<^verbatim>\<open>ValueError\<close> outside the shape.
\<close>

definition bincount :: "nat list \<Rightarrow> nat list" where
  "bincount xs = (if xs = [] then [] else map (count_list xs) [0..<Suc (Max (set xs))])"

definition argmax :: "nat list \<Rightarrow> exn + nat" where
  "argmax cs =
     (if cs = [] then Inl ValueError
      else Inr (length (takeWhile (\<lambda>c. c \<noteq> Max (set cs)) cs)))"

definition unravel_index :: "nat \<Rightarrow> exn + nat \<times> nat \<times> nat" where
  "unravel_index v =
     (if v < 256 * 256 * 256 then Inr (v div (256 * 256), v div 256 mod 256, v mod 256)
      else Inl ValueError)"

text \<open>
  \<^verbatim>\<open>avg_screen_color\<close>: the screenshot is resized to one pixel, and that pixel is
  converted with \<^verbatim>\<open>temperature=initial_color[3]\<close>, which raises \<^verbatim>\<open>IndexError\<close> on a baseline
  of fewer than four components.
\<close>

definition avg_screen_color :: "libs \<Rightarrow> exn + image \<Rightarrow> color \<Rightarrow> exn + color" where
  "avg_screen_color L shot initial_color =
     (case shot of
        Inl x \<Rightarrow> Inl x
      | Inr screenshot \<Rightarrow>
          (case resize L (1, 1) screenshot of
             Inl x \<Rightarrow> Inl x
           | Inr small \<Rightarrow>
               (case getpixel small of
                  Inl x \<Rightarrow> Inl x
                | Inr color \<Rightarrow>
                    if length initial_color < 4 then Inl IndexError
                    else Inr (list_of_hsbk (RGBtoHSBK L color (initial_color ! 3))))))"

text \<open>
  \<^verbatim>\<open>dominant_screen_color\<close>: the screenshot is resized to a quarter of its width and
  height, every pixel is encoded as \<^verbatim>\<open>a0*s0*s1 + a1*s0 + a2\<close> with \<^verbatim>\<open>s0 = s1 = 256\<close>
  (evaluated on integers wide enough not to wrap), and the most frequent bucket is
  decoded and converted.
\<close>

definition dominant_screen_color :: "libs \<Rightarrow> exn + image \<Rightarrow> color \<Rightarrow> exn + color" where
  "dominant_screen_color L shot initial_color =
     (case shot of
        Inl x \<Rightarrow> Inl x
      | Inr screenshot \<Rightarrow>
          (case resize L (width screenshot div 4, height screenshot div 4) screenshot of
             Inl x \<Rightarrow> Inl x
           | Inr small \<Rightarrow>
               (let a2D = pixels small;
                    a1D = map (\<lambda>(a0, a1, a2). unat a0 * 256 * 256 + unat a1 * 256 + unat a2) a2D
                in case argmax (bincount a1D) of
                     Inl x \<Rightarrow> Inl x
                   | Inr v \<Rightarrow>
                       (case unravel_index v of
                          Inl x \<Rightarrow> Inl x
                        | Inr color \<Rightarrow>
                            if length initial_color < 4 then Inl IndexError
                            else Inr (list_of_hsbk
                                   (RGBtoHSBK L color (initial_color ! 3)))))))"

subsection \<open>Concrete inputs\<close>

text \<open>
  A configuration with an integer duration and brightness offset, a colour function
  that reports brightness \<open>b\<close> and carries the kelvin value of its baseline forward, and
  a runner whose thread has been started. They are the inputs at which the theorems
  below are instantiated.
\<close>

definition example_config :: "int \<Rightarrow> int \<Rightarrow> config" where
  "example_config d off =
     [''AverageColor'' \<mapsto> [''duration'' \<mapsto> IntLit d, ''brightnessoffset'' \<mapsto> IntLit off]]"

definition example_env :: "int \<Rightarrow> int \<Rightarrow> int \<Rightarrow> exn option \<Rightarrow> env" where
  "example_env b d off res =
     \<lparr>color_function = (\<lambda>ic. if length ic < 4 then Inl IndexError else Inr [0, 0, b, ic ! 3]),
      config = example_config d off, set_color_result = res\<rparr>"

definition example_runner :: "bool \<Rightarrow> runner" where
  "example_runner cont =
     \<lparr>prev_color = [0, 0, 0, 3500], continuous = cont,
      thread = \<lparr>started = True, stop_event = False\<rparr>, trace = [], spawned = 1\<rparr>"

text \<open>The first configuration with one more key, \<^verbatim>\<open>continuous\<close>, added by a later edit.\<close>

definition example_config_edited :: config where
  "example_config_edited =
     [''AverageColor'' \<mapsto> [''duration'' \<mapsto> IntLit 1, ''brightnessoffset'' \<mapsto> IntLit 0,
        ''continuous'' \<mapsto> Other ''False'']]"

text \<open>An 8 by 4 screenshot (its first pixels), and libraries whose resize keeps the first
  pixels and whose conversion only computes a brightness.\<close>

definition example_image :: image where
  "example_image = \<lparr>width = 8, height = 4,
     pixels = [(0, 0, 2), (0, 0, 1), (0, 0, 2), (0, 0, 1), (0, 0, 0)]\<rparr>"

definition example_libs :: libs where
  "example_libs =
     \<lparr>hsb_of = (\<lambda>(r, g, b). (0, 0, int (max r (max g b)) * 257)),
      resize = (\<lambda>(w, h) img. if w = 0 \<or> h = 0 then Inl ValueError
                             else Inr (img\<lparr>width := w, height := h,
                                            pixels := take (w * h) (pixels img)\<rparr>))\<rparr>"

subsection \<open>Reading the trace\<close>

text \<open>
  \<open>is_push\<close> holds of the calls of \<^verbatim>\<open>set_color\<close> in a trace, \<open>push_ok\<close> of those that
  returned. \<open>push_raises_OSError pc e\<close> says that a pass with baseline \<open>pc\<close> in
  environment \<open>e\<close> reaches the bulb call and that the call raises an \<^verbatim>\<open>OSError\<close>;
  \<open>push_succeeds pc e\<close> that it reaches the call and the call returns.
\<close>

fun is_push :: "event \<Rightarrow> bool" where
  "is_push (SetColor c d rapid res) = True"
| "is_push ev = False"

fun push_ok :: "event \<Rightarrow> bool" where
  "push_ok (SetColor c d rapid None) = True"
| "push_ok ev = False"

definition set_color_calls :: "event list \<Rightarrow> event list" where
  "set_color_calls tr = filter is_push tr"

definition push_raises_OSError :: "color \<Rightarrow> env \<Rightarrow> bool" where
  "push_raises_OSError pc e =
     (case color_function e pc of
        Inl x \<Rightarrow> False
      | Inr c \<Rightarrow>
          3 \<le> length c \<and> \<not> isl (get_brightness_offset (config e))
          \<and> \<not> isl (get_duration (config e))
          \<and> (case set_color_result e of None \<Rightarrow> False | Some x \<Rightarrow> isinstance_OSError x))"

definition push_succeeds :: "color \<Rightarrow> env \<Rightarrow> bool" where
  "push_succeeds pc e =
     (case color_function e pc of
        Inl x \<Rightarrow> False
      | Inr c \<Rightarrow>
          3 \<le> length c \<and> \<not> isl (get_brightness_offset (config e))
          \<and> \<not> isl (get_duration (config e)) \<and> set_color_result e = None)"

section \<open>Properties\<close>

subsection \<open>Evaluation of the concrete inputs\<close>

lemma example_duration [simp]: "get_duration (example_config d off) = Inr (real_of_int d)"
  by (simp add: get_duration_def config_get_def example_config_def)

lemma example_offset [simp]: "get_brightness_offset (example_config d off) = Inr off"
  by (simp add: get_brightness_offset_def config_get_def example_config_def)

lemma example_env_simps [simp]:
  "color_function (example_env b d off res) [h, s, v, k] = Inr [0, 0, b, k]"
  "config (example_env b d off res) = example_config d off"
  "set_color_result (example_env b d off res) = res"
  by (simp_all add: example_env_def)

lemma example_runner_simps [simp]:
  "prev_color (example_runner cont) = [0, 0, 0, 3500]"
  "continuous (example_runner cont) = cont"
  "\<not> stopped (thread (example_runner cont))"
  "trace (example_runner cont) = []"
  by (simp_all add: example_runner_def stopped_def)

lemma example_config_edited_simps [simp]:
  "get_duration example_config_edited = Inr 1"
  "get_brightness_offset example_config_edited = Inr 0"
  by (simp_all add: get_duration_def get_brightness_offset_def config_get_def
      example_config_edited_def)

lemma example_resize:
  "resize example_libs (1, 1) example_image =
     Inr \<lparr>width = 1, height = 1, pixels = [(0, 0, 2)]\<rparr>"
  "resize example_libs (width example_image div 4, height example_image div 4) example_image =
     Inr \<lparr>width = 2, height = 1, pixels = [(0, 0, 2), (0, 0, 1)]\<rparr>"
  by (simp_all add: example_libs_def example_image_def)

subsection \<open>One pass through the try block\<close>

lemma try_body_thread [simp]: "thread (snd (try_body r e)) = thread r"
  by (simp add: try_body_def Let_def split: sum.splits option.splits)

lemma try_body_continuous [simp]: "continuous (snd (try_body r e)) = continuous r"
  by (simp add: try_body_def Let_def split: sum.splits option.splits)

lemma try_body_spawned [simp]: "spawned (snd (try_body r e)) = spawned r"
  by (simp add: try_body_def Let_def split: sum.splits option.splits)

text \<open>When sampling and both configuration reads go through, the bulb is called with
  the adjusted colour, and the baseline moves only if the call returns.\<close>

lemma try_body_push:
  assumes "color_function e (prev_color r) = Inr c" and "3 \<le> length c"
    and "get_brightness_offset (config e) = Inr off"
    and "get_duration (config e) = Inr d"
  shows "try_body r e =
    (case set_color_result e of
       Some x \<Rightarrow>
         (Inl x, r\<lparr>trace := trace r @
            [SetColor (c[2 := min (c ! 2 + off) 65535]) (d * 1000) (continuous r) (Some x)]\<rparr>)
     | None \<Rightarrow>
         (Inr (), r\<lparr>trace := trace r @
            [SetColor (c[2 := min (c ! 2 + off) 65535]) (d * 1000) (continuous r) None],
            prev_color := c[2 := min (c ! 2 + off) 65535]\<rparr>))"
  using assms by (simp add: try_body_def Let_def split: option.splits)

subsection \<open>Brightness offset\<close>

text \<open>
  Claim C7. For a sampled colour with brightness \<open>b = c ! 2\<close> and a configured offset
  \<open>off\<close>, the colour handed to \<^verbatim>\<open>set_color\<close> has brightness \<open>min (b + off) 65535\<close>, which
  is at most 65535.
\<close>

theorem offset_clamp:
  assumes "color_function e (prev_color r) = Inr c" and "3 \<le> length c"
    and "get_brightness_offset (config e) = Inr off"
    and "get_duration (config e) = Inr d"
  shows "\<exists>c'. trace (snd (try_body r e)) =
            trace r @ [SetColor c' (d * 1000) (continuous r) (set_color_result e)]
          \<and> c' ! 2 = min (c ! 2 + off) 65535 \<and> c' ! 2 \<le> 65535"
  using assms by (simp add: try_body_push split: option.splits)

theorem offset_clamp_witness:
  "color_function (example_env 65000 1 1000 None) (prev_color (example_runner True))
     = Inr [0, 0, 65000, 3500]
   \<and> 3 \<le> length [0, 0, 65000, 3500 :: int]
   \<and> get_brightness_offset (config (example_env 65000 1 1000 None)) = Inr 1000
   \<and> get_duration (config (example_env 65000 1 1000 None)) = Inr 1
   \<and> (\<exists>c'. trace (snd (try_body (example_runner True) (example_env 65000 1 1000 None))) =
            [SetColor c' 1000 True None]
          \<and> c' ! 2 = 65535)"
  using offset_clamp [of "example_env 65000 1 1000 None" "example_runner True"
      "[0, 0, 65000, 3500]" 1000 1]
  by auto

text \<open>
  Claim C9. There is no lower clamp: whenever the sampled brightness plus the
  configured offset is negative, that negative sum is the brightness handed to
  \<^verbatim>\<open>set_color\<close>. The instance below has brightness 100 and offset \<open>-200\<close>.
\<close>

theorem no_lower_clamp:
  assumes "color_function e (prev_color r) = Inr c" and "3 \<le> length c"
    and "get_brightness_offset (config e) = Inr off"
    and "get_duration (config e) = Inr d"
    and "c ! 2 + off < 0"
  shows "\<exists>c'. trace (snd (try_body r e)) =
            trace r @ [SetColor c' (d * 1000) (continuous r) (set_color_result e)]
          \<and> c' ! 2 = c ! 2 + off \<and> c' ! 2 < 0"
  using assms by (simp add: try_body_push split: option.splits)

theorem no_lower_clamp_witness:
  "color_function (example_env 100 1 (- 200) None) (prev_color (example_runner True))
     = Inr [0, 0, 100, 3500]
   \<and> 3 \<le> length [0, 0, 100, 3500 :: int]
   \<and> get_brightness_offset (config (example_env 100 1 (- 200) None)) = Inr (- 200)
   \<and> get_duration (config (example_env 100 1 (- 200) None)) = Inr 1
   \<and> [0, 0, 100, 3500 :: int] ! 2 + (- 200) < 0
   \<and> (\<exists>c'. trace (snd (try_body (example_runner True) (example_env 100 1 (- 200) None))) =
            [SetColor c' 1000 True None]
          \<and> c' ! 2 = - 100)"
  using no_lower_clamp [of "example_env 100 1 (- 200) None" "example_runner True"
      "[0, 0, 100, 3500]" "- 200" 1]
  by auto

subsection \<open>Arguments of the push\<close>

text \<open>
  Claim C5, as stated, fails: with a configured duration of 1 (second) the call is
  \<^verbatim>\<open>set_color(color, duration=1000, rapid=True)\<close>; the duration argument is not the
  configured value.
\<close>

theorem duration_seconds_counterexample:
  "get_duration (config (example_env 100 1 0 None)) = Inr 1
   \<and> trace (snd (try_body (example_runner True) (example_env 100 1 0 None)))
       = [SetColor [0, 0, 100, 3500] 1000 True None]
   \<and> (1000 :: real) \<noteq> 1"
  by (simp add: try_body_push [of _ _ "[0, 0, 100, 3500]" 0 1])

text \<open>
  Claim C5, amended. A pass through the try block either makes no call of
  \<^verbatim>\<open>set_color\<close>, or makes exactly one, whose duration argument is the configured
  duration multiplied by 1000 and whose rapid argument is the runner's
  \<^verbatim>\<open>continuous\<close> attribute.
\<close>

theorem duration_milliseconds_and_rapid:
  "trace (snd (try_body r e)) = trace r
   \<or> (\<exists>c d. get_duration (config e) = Inr d
          \<and> trace (snd (try_body r e)) =
              trace r @ [SetColor c (d * 1000) (continuous r) (set_color_result e)])"
  by (simp add: try_body_def Let_def split: sum.splits option.splits)

theorem duration_milliseconds_and_rapid_witness:
  "trace (snd (try_body (example_runner False) (example_env 100 2 0 None))) \<noteq>
     trace (example_runner False)
   \<and> (\<exists>c d. get_duration (config (example_env 100 2 0 None)) = Inr d
          \<and> trace (snd (try_body (example_runner False) (example_env 100 2 0 None))) =
              trace (example_runner False) @ [SetColor c (d * 1000) False None])"
  using duration_milliseconds_and_rapid [of "example_runner False" "example_env 100 2 0 None"]
  by (auto simp add: try_body_push [of _ _ "[0, 0, 100, 3500]" 0 2])

subsection \<open>The loop\<close>

lemma loop_stopped: "stopped (thread r) \<Longrightarrow> match_color_loop r es = (Finished, r)"
  by (cases es) simp_all

lemma logger_simps [simp]:
  "prev_color (logger r l m) = prev_color r"
  "continuous (logger r l m) = continuous r"
  "thread (logger r l m) = thread r"
  "spawned (logger r l m) = spawned r"
  "trace (logger r l m) = trace r @ [Log l m]"
  by (simp_all add: logger_def)

lemma stop_simps [simp]:
  "prev_color (stop r) = prev_color r"
  "continuous (stop r) = continuous r"
  "stopped (thread (stop r))"
  "spawned (stop r) = spawned r"
  "trace (stop r) = trace r"
  by (simp_all add: stop_def stopped_def)

lemma try_body_Inl:
  assumes "try_body r e = (Inl x, r')"
  shows "prev_color r' = prev_color r \<and> thread r' = thread r \<and> continuous r' = continuous r
         \<and> spawned r' = spawned r
         \<and> (trace r' = trace r
             \<or> (\<exists>c d. trace r' = trace r @ [SetColor c d (continuous r) (Some x)]))"
  using assms
  by (auto simp add: try_body_def Let_def split: sum.splits option.splits if_splits)

lemma try_body_Inr:
  assumes "try_body r e = (Inr u, r')"
  shows "thread r' = thread r \<and> continuous r' = continuous r \<and> spawned r' = spawned r
         \<and> (\<exists>c d. trace r' = trace r @ [SetColor c d (continuous r) None])"
  using assms
  by (auto simp add: try_body_def Let_def split: sum.splits option.splits if_splits)

lemma loop_continuous: "continuous (snd (match_color_loop r es)) = continuous r"
proof (induction es arbitrary: r)
  case Nil
  show ?case by simp
next
  case (Cons e es)
  show ?case
  proof (cases "stopped (thread r)")
    case True
    then show ?thesis by simp
  next
    case False
    obtain res r' where tb: "try_body r e = (res, r')" by (cases "try_body r e")
    have c: "continuous r' = continuous r"
      using tb try_body_continuous [of r e] by simp
    show ?thesis
    proof (cases res)
      case (Inl x)
      then show ?thesis using False tb c Cons.IH [of "logger r' INFO ''Hit an os error''"]
        by simp
    next
      case (Inr u)
      then show ?thesis using False tb c Cons.IH [of "stop r'"] Cons.IH [of r']
        by simp
    qed
  qed
qed

subsection \<open>Exceptions inside one pass\<close>

text \<open>
  Claim C1, amended. When the try block of one pass raises, the loop goes on to the next
  pass exactly when the exception is an \<^verbatim>\<open>OSError\<close> (or a subclass): it is logged, and the
  stop flag is left as it was. Any other exception is not handled by the loop: it
  leaves \<^verbatim>\<open>match_color\<close>, and the worker has ended.
\<close>

theorem oserror_caught_other_exceptions_end_worker:
  assumes "\<not> stopped (thread r)" and "try_body r e = (Inl x, r')"
  shows "(isinstance_OSError x \<longrightarrow>
            match_color_loop r (e # es) =
              match_color_loop (logger r' INFO ''Hit an os error'') es
            \<and> \<not> stopped (thread (logger r' INFO ''Hit an os error'')))
       \<and> (\<not> isinstance_OSError x \<longrightarrow>
            match_color_loop r (e # es) = (Raised x, r')
            \<and> worker_ended (fst (match_color_loop r (e # es))))"
  using assms try_body_Inl [OF assms(2)] by (simp add: worker_ended_def)

theorem oserror_caught_other_exceptions_end_worker_witness:
  "\<not> stopped (thread (example_runner True))
   \<and> try_body (example_runner True) (example_env 100 1 0 (Some TimeoutError)) =
       (Inl TimeoutError, (example_runner True)\<lparr>trace :=
          [SetColor [0, 0, 100, 3500] 1000 True (Some TimeoutError)]\<rparr>)
   \<and> isinstance_OSError TimeoutError
   \<and> match_color_loop (example_runner True)
        [example_env 100 1 0 (Some TimeoutError), example_env 200 1 0 None] =
       match_color_loop
        (logger ((example_runner True)\<lparr>trace :=
          [SetColor [0, 0, 100, 3500] 1000 True (Some TimeoutError)]\<rparr>)
          INFO ''Hit an os error'') [example_env 200 1 0 None]
   \<and> try_body (example_runner True) (example_env 100 1 0 (Some WorkflowException)) =
       (Inl WorkflowException, (example_runner True)\<lparr>trace :=
          [SetColor [0, 0, 100, 3500] 1000 True (Some WorkflowException)]\<rparr>)
   \<and> \<not> isinstance_OSError WorkflowException
   \<and> match_color_loop (example_runner True)
        [example_env 100 1 0 (Some WorkflowException), example_env 200 1 0 None] =
       (Raised WorkflowException, (example_runner True)\<lparr>trace :=
          [SetColor [0, 0, 100, 3500] 1000 True (Some WorkflowException)]\<rparr>)"
proof -
  have a: "try_body (example_runner True) (example_env 100 1 0 (Some TimeoutError)) =
       (Inl TimeoutError, (example_runner True)\<lparr>trace :=
          [SetColor [0, 0, 100, 3500] 1000 True (Some TimeoutError)]\<rparr>)"
    by (simp add: try_body_push [of _ _ "[0, 0, 100, 3500]" 0 1])
  have b: "try_body (example_runner True) (example_env 100 1 0 (Some WorkflowException)) =
       (Inl WorkflowException, (example_runner True)\<lparr>trace :=
          [SetColor [0, 0, 100, 3500] 1000 True (Some WorkflowException)]\<rparr>)"
    by (simp add: try_body_push [of _ _ "[0, 0, 100, 3500]" 0 1])
  have s: "\<not> stopped (thread (example_runner True))" by simp
  show ?thesis
    using a b s
      oserror_caught_other_exceptions_end_worker [OF s a, of "[example_env 200 1 0 None]"]
      oserror_caught_other_exceptions_end_worker [OF s b, of "[example_env 200 1 0 None]"]
    by (simp add: isinstance_OSError_def)
qed

text \<open>
  Claim C1, as stated, fails: in a bulb call that raises \<^verbatim>\<open>WorkflowException\<close> (what the
  bulb library raises when an acknowledgement is missing) the exception is not caught
  by the loop. The patched \<^verbatim>\<open>Thread.run\<close> hands it to the excepthook and returns, so the
  worker has ended and the second pass, which would have succeeded, never runs.
\<close>

theorem uncaught_exception_counterexample:
  "run (example_runner False) [0, 0, 0, 3500]
     [example_env 100 1 0 (Some WorkflowException), example_env 200 1 0 None] =
   (Finished, (example_runner False)\<lparr>trace :=
      [Log DEBUG ''Starting color match.'',
       SetColor [0, 0, 100, 3500] 1000 False (Some WorkflowException),
       Excepthook WorkflowException]\<rparr>)
   \<and> worker_ended Finished"
  by (simp add: run_def match_color_def try_body_push [of _ _ "[0, 0, 100, 3500]" 0 1]
      isinstance_OSError_def worker_ended_def logger_def stopped_def example_runner_def)

text \<open>
  Claim C4, as stated, fails: a failure of \<^verbatim>\<open>set_color\<close> that is not an \<^verbatim>\<open>OSError\<close> (here
  the \<^verbatim>\<open>WorkflowException\<close> of a missed acknowledgement) ends the loop, although the
  next pass would have succeeded.
\<close>

theorem transient_device_error_counterexample:
  "match_color_loop (example_runner True)
     [example_env 100 1 0 (Some WorkflowException), example_env 200 1 0 None] =
   (Raised WorkflowException,
    (example_runner True)\<lparr>trace :=
       [SetColor [0, 0, 100, 3500] 1000 True (Some WorkflowException)]\<rparr>)
   \<and> worker_ended (Raised WorkflowException)"
  by (simp add: try_body_push [of _ _ "[0, 0, 100, 3500]" 0 1]
      isinstance_OSError_def worker_ended_def)

text \<open>
  Claim C4, amended. If \<^verbatim>\<open>set_color\<close> raises an \<^verbatim>\<open>OSError\<close> (or a subclass) in pass k, the
  loop does not end: after that pass it is still running, with the baseline
  \<open>prev_color\<close> it had when the pass began, and it goes on with the remaining passes
  from there. If \<^verbatim>\<open>set_color\<close> returns in pass k+1, that pass sampled from the unchanged
  baseline, and its colour is the new baseline; the loop is then still running when the
  runner is continuous, and has stopped itself when it is one-shot.
\<close>

theorem oserror_on_push_keeps_baseline:
  assumes "\<not> stopped (thread r)"
    and "color_function e (prev_color r) = Inr c" and "3 \<le> length c"
    and "get_brightness_offset (config e) = Inr off"
    and "get_duration (config e) = Inr d"
    and "set_color_result e = Some x" and "isinstance_OSError x"
    and "color_function e' (prev_color r) = Inr c2" and "3 \<le> length c2"
    and "get_brightness_offset (config e') = Inr off2"
    and "get_duration (config e') = Inr d2"
    and "set_color_result e' = None"
  shows "match_color_loop r [e] =
           (StillRunning,
            r\<lparr>trace := trace r @
               [SetColor (c[2 := min (c ! 2 + off) 65535]) (d * 1000) (continuous r) (Some x),
                Log INFO ''Hit an os error'']\<rparr>)
       \<and> prev_color (snd (match_color_loop r [e])) = prev_color r
       \<and> match_color_loop r (e # es) =
           match_color_loop
             (r\<lparr>trace := trace r @
               [SetColor (c[2 := min (c ! 2 + off) 65535]) (d * 1000) (continuous r) (Some x),
                Log INFO ''Hit an os error'']\<rparr>) es
       \<and> match_color_loop r [e, e'] =
           (if continuous r then StillRunning else Finished,
            r\<lparr>trace := trace r @
               [SetColor (c[2 := min (c ! 2 + off) 65535]) (d * 1000) (continuous r) (Some x),
                Log INFO ''Hit an os error'',
                SetColor (c2[2 := min (c2 ! 2 + off2) 65535]) (d2 * 1000) (continuous r) None],
              prev_color := c2[2 := min (c2 ! 2 + off2) 65535],
              thread := (if continuous r then thread r
                         else (thread r)\<lparr>stop_event := True\<rparr>)\<rparr>)"
proof -
  let ?r1 = "r\<lparr>trace := trace r @
      [SetColor (c[2 := min (c ! 2 + off) 65535]) (d * 1000) (continuous r) (Some x),
       Log INFO ''Hit an os error'']\<rparr>"
  have step: "match_color_loop r (e # es') = match_color_loop ?r1 es'" for es'
    using assms(1-7) by (simp add: try_body_push logger_def)
  have ns: "\<not> stopped (thread ?r1)" using assms(1) by simp
  have one: "match_color_loop r [e] = (StillRunning, ?r1)"
    using step [of "[]"] ns by simp
  have tb: "try_body ?r1 e' =
      (Inr (), ?r1\<lparr>trace := trace ?r1 @
          [SetColor (c2[2 := min (c2 ! 2 + off2) 65535]) (d2 * 1000) (continuous ?r1) None],
        prev_color := c2[2 := min (c2 ! 2 + off2) 65535]\<rparr>)"
    using assms(8-12) by (simp add: try_body_push [of e' ?r1 c2 off2 d2])
  have two: "match_color_loop ?r1 [e'] =
      (if continuous r then StillRunning else Finished,
            r\<lparr>trace := trace r @
               [SetColor (c[2 := min (c ! 2 + off) 65535]) (d * 1000) (continuous r) (Some x),
                Log INFO ''Hit an os error'',
                SetColor (c2[2 := min (c2 ! 2 + off2) 65535]) (d2 * 1000) (continuous r) None],
              prev_color := c2[2 := min (c2 ! 2 + off2) 65535],
              thread := (if continuous r then thread r
                         else (thread r)\<lparr>stop_event := True\<rparr>)\<rparr>)"
    using ns tb assms(1) by (simp add: stop_def stopped_def)
  show ?thesis
    using one step [of es] step [of "[e']"] two by simp
qed

theorem oserror_on_push_keeps_baseline_witness:
  "\<not> stopped (thread (example_runner True))
   \<and> set_color_result (example_env 100 1 0 (Some OSError)) = Some OSError
   \<and> isinstance_OSError OSError
   \<and> set_color_result (example_env 200 1 0 None) = None
   \<and> match_color_loop (example_runner True) [example_env 100 1 0 (Some OSError)] =
       (StillRunning,
        (example_runner True)\<lparr>trace :=
           [SetColor [0, 0, 100, 3500] 1000 True (Some OSError),
            Log INFO ''Hit an os error'']\<rparr>)
   \<and> prev_color (snd (match_color_loop (example_runner True)
         [example_env 100 1 0 (Some OSError)])) = [0, 0, 0, 3500]
   \<and> match_color_loop (example_runner True)
         [example_env 100 1 0 (Some OSError), example_env 200 1 0 None] =
       (StillRunning,
        (example_runner True)\<lparr>trace :=
           [SetColor [0, 0, 100, 3500] 1000 True (Some OSError),
            Log INFO ''Hit an os error'',
            SetColor [0, 0, 200, 3500] 1000 True None],
          prev_color := [0, 0, 200, 3500],
          thread := thread (example_runner True)\<rparr>)"
proof -
  have x: "isinstance_OSError OSError" by (simp add: isinstance_OSError_def)
  have s: "\<not> stopped (thread (example_runner True))" by simp
  show ?thesis
    using x s oserror_on_push_keeps_baseline [of "example_runner True"
        "example_env 100 1 0 (Some OSError)" "[0, 0, 100, 3500]" 0 1 OSError
        "example_env 200 1 0 None" "[0, 0, 200, 3500]" 0 1 "[]"]
    by (simp del: match_color_loop.simps)
qed

subsection \<open>One-shot runs\<close>

lemma set_color_calls_simps [simp]:
  "set_color_calls [] = []"
  "set_color_calls (xs @ ys) = set_color_calls xs @ set_color_calls ys"
  "set_color_calls (SetColor c d rapid res # xs) = SetColor c d rapid res # set_color_calls xs"
  "set_color_calls (Log l m # xs) = set_color_calls xs"
  by (simp_all add: set_color_calls_def)

lemma one_shot_run:
  assumes "\<not> continuous r" and "\<not> stopped (thread r)"
  shows "\<exists>evs. trace (snd (match_color_loop r es)) = trace r @ evs
           \<and> (case fst (match_color_loop r es) of
                 Finished \<Rightarrow> length (filter push_ok evs) = 1 \<and> set_color_calls evs \<noteq> []
                             \<and> push_ok (last (set_color_calls evs))
               | StillRunning \<Rightarrow> filter push_ok evs = []
               | Raised x \<Rightarrow> filter push_ok evs = [])"
  using assms
proof (induction es arbitrary: r)
  case Nil
  then show ?case by simp
next
  case (Cons e es)
  obtain res r' where tb: "try_body r e = (res, r')" by (cases "try_body r e")
  show ?case
  proof (cases res)
    case (Inl x)
    from try_body_Inl [OF tb [unfolded Inl]]
    obtain ev0 where r': "prev_color r' = prev_color r" "thread r' = thread r"
        "continuous r' = continuous r" "trace r' = trace r @ ev0"
        "filter push_ok ev0 = []"
      by auto
    show ?thesis
    proof (cases "isinstance_OSError x")
      case True
      let ?r2 = "logger r' INFO ''Hit an os error''"
      have loop: "match_color_loop r (e # es) = match_color_loop ?r2 es"
        using Cons.prems tb Inl True by simp
      have "\<not> continuous ?r2" "\<not> stopped (thread ?r2)"
        using Cons.prems r' by simp_all
      from Cons.IH [OF this] obtain evs where
        evs: "trace (snd (match_color_loop ?r2 es)) = trace ?r2 @ evs"
          "(case fst (match_color_loop ?r2 es) of
                 Finished \<Rightarrow> length (filter push_ok evs) = 1 \<and> set_color_calls evs \<noteq> []
                             \<and> push_ok (last (set_color_calls evs))
               | StillRunning \<Rightarrow> filter push_ok evs = []
               | Raised x \<Rightarrow> filter push_ok evs = [])"
        by blast
      have tr: "trace (snd (match_color_loop r (e # es))) =
          trace r @ (ev0 @ Log INFO ''Hit an os error'' # evs)"
        using loop evs(1) r'(4) by simp
      have "(case fst (match_color_loop r (e # es)) of
                 Finished \<Rightarrow> length (filter push_ok (ev0 @ Log INFO ''Hit an os error'' # evs)) = 1
                     \<and> set_color_calls (ev0 @ Log INFO ''Hit an os error'' # evs) \<noteq> []
                     \<and> push_ok (last (set_color_calls (ev0 @ Log INFO ''Hit an os error'' # evs)))
               | StillRunning \<Rightarrow> filter push_ok (ev0 @ Log INFO ''Hit an os error'' # evs) = []
               | Raised x \<Rightarrow> filter push_ok (ev0 @ Log INFO ''Hit an os error'' # evs) = [])"
        using evs(2) r'(5) unfolding loop
        by (simp split: outcome.splits)
      with tr show ?thesis by blast
    next
      case False
      have "match_color_loop r (e # es) = (Raised x, r')"
        using Cons.prems tb Inl False by simp
      then show ?thesis using r' by simp
    qed
  next
    case (Inr u)
    from try_body_Inr [OF tb [unfolded Inr]]
    obtain c d where r': "thread r' = thread r" "continuous r' = continuous r"
        "trace r' = trace r @ [SetColor c d (continuous r) None]"
      by auto
    have "match_color_loop r (e # es) = (Finished, stop r')"
      using Cons.prems tb Inr r' by (simp add: loop_stopped)
    then show ?thesis using r' by simp
  qed
qed

text \<open>
  Claim C3, amended. With \<^verbatim>\<open>continuous\<close> false, a pass that completes without exception
  ends the loop, whatever would follow: its \<^verbatim>\<open>set_color\<close> call is the last one. In any run
  at most one \<^verbatim>\<open>set_color\<close> call returns; when the loop has finished exactly one has, and
  it is the last call made; while the loop is still running none has. Calls that raised
  are not bounded by this.
\<close>

theorem one_shot_stops_after_first_success:
  assumes "\<not> continuous r" and "\<not> stopped (thread r)"
  shows "(\<forall>e rest r1. try_body r e = (Inr (), r1) \<longrightarrow>
            match_color_loop r (e # rest) = (Finished, stop r1)
            \<and> set_color_calls (trace (stop r1)) = set_color_calls (trace r) @ [last (trace r1)]
            \<and> push_ok (last (trace r1)))
       \<and> (\<exists>evs. trace (snd (match_color_loop r es)) = trace r @ evs
             \<and> length (filter push_ok evs) \<le> 1
             \<and> (fst (match_color_loop r es) = Finished \<longrightarrow>
                  length (filter push_ok evs) = 1 \<and> set_color_calls evs \<noteq> []
                  \<and> push_ok (last (set_color_calls evs)))
             \<and> (fst (match_color_loop r es) = StillRunning \<longrightarrow> filter push_ok evs = []))"
proof -
  have a: "match_color_loop r (e # rest) = (Finished, stop r1)
        \<and> set_color_calls (trace (stop r1)) = set_color_calls (trace r) @ [last (trace r1)]
        \<and> push_ok (last (trace r1))"
    if tb: "try_body r e = (Inr (), r1)" for e rest r1
  proof -
    from try_body_Inr [OF tb]
    obtain c d where r1: "thread r1 = thread r" "continuous r1 = continuous r"
        "trace r1 = trace r @ [SetColor c d (continuous r) None]"
      by auto
    have "match_color_loop r (e # rest) = (Finished, stop r1)"
      using assms tb r1 by (simp add: loop_stopped)
    then show ?thesis using r1 by simp
  qed
  from one_shot_run [OF assms, of es] obtain evs where
    evs: "trace (snd (match_color_loop r es)) = trace r @ evs"
      "(case fst (match_color_loop r es) of
                 Finished \<Rightarrow> length (filter push_ok evs) = 1 \<and> set_color_calls evs \<noteq> []
                             \<and> push_ok (last (set_color_calls evs))
               | StillRunning \<Rightarrow> filter push_ok evs = []
               | Raised x \<Rightarrow> filter push_ok evs = [])"
    by blast
  have "length (filter push_ok evs) \<le> 1
        \<and> (fst (match_color_loop r es) = Finished \<longrightarrow>
                  length (filter push_ok evs) = 1 \<and> set_color_calls evs \<noteq> []
                  \<and> push_ok (last (set_color_calls evs)))
        \<and> (fst (match_color_loop r es) = StillRunning \<longrightarrow> filter push_ok evs = [])"
    using evs(2) by (cases "fst (match_color_loop r es)") simp_all
  with evs(1) a show ?thesis by blast
qed

theorem one_shot_stops_after_first_success_witness:
  "\<not> continuous (example_runner False) \<and> \<not> stopped (thread (example_runner False))
   \<and> try_body (example_runner False) (example_env 100 1 0 None) =
       (Inr (), (example_runner False)\<lparr>trace := [SetColor [0, 0, 100, 3500] 1000 False None],
                                         prev_color := [0, 0, 100, 3500]\<rparr>)
   \<and> match_color_loop (example_runner False)
        [example_env 100 1 0 None, example_env 200 1 0 None, example_env 300 1 0 None] =
       (Finished, stop ((example_runner False)\<lparr>trace := [SetColor [0, 0, 100, 3500] 1000 False None],
                                         prev_color := [0, 0, 100, 3500]\<rparr>))"
proof -
  have c: "\<not> continuous (example_runner False)"
    and s: "\<not> stopped (thread (example_runner False))" by simp_all
  have tb: "try_body (example_runner False) (example_env 100 1 0 None) =
       (Inr (), (example_runner False)\<lparr>trace := [SetColor [0, 0, 100, 3500] 1000 False None],
                                         prev_color := [0, 0, 100, 3500]\<rparr>)"
    by (simp add: try_body_push [of _ _ "[0, 0, 100, 3500]" 0 1])
  from one_shot_stops_after_first_success [OF c s, of "[]"]
  have "match_color_loop (example_runner False)
        [example_env 100 1 0 None, example_env 200 1 0 None, example_env 300 1 0 None] =
       (Finished, stop ((example_runner False)\<lparr>trace := [SetColor [0, 0, 100, 3500] 1000 False None],
                                         prev_color := [0, 0, 100, 3500]\<rparr>))"
    using tb by blast
  with c s tb show ?thesis by blast
qed

text \<open>
  Claim C3, as stated, fails: when the first \<^verbatim>\<open>set_color\<close> call raises \<^verbatim>\<open>OSError\<close>, a
  one-shot run makes a second call before it stops.
\<close>

theorem one_shot_single_call_counterexample:
  "match_color_loop (example_runner False)
     [example_env 100 1 0 (Some OSError), example_env 200 1 0 None, example_env 300 1 0 None] =
   (Finished, stop ((example_runner False)\<lparr>trace :=
      [SetColor [0, 0, 100, 3500] 1000 False (Some OSError),
       Log INFO ''Hit an os error'',
       SetColor [0, 0, 200, 3500] 1000 False None],
      prev_color := [0, 0, 200, 3500]\<rparr>))
   \<and> length (set_color_calls
      [SetColor [0, 0, 100, 3500] 1000 False (Some OSError),
       Log INFO ''Hit an os error'',
       SetColor [0, 0, 200, 3500] 1000 False None]) = 2"
  by (simp add: try_body_push [of _ _ "[0, 0, 100, 3500]" 0 1]
      try_body_push [of _ _ "[0, 0, 200, 3500]" 0 1]
      isinstance_OSError_def logger_def stop_def stopped_def example_runner_def)

lemma not_isl_Inr: "\<not> isl v \<Longrightarrow> \<exists>y. v = Inr y"
  by (cases v) simp_all

lemma push_raises_OSErrorD:
  assumes "push_raises_OSError pc e"
  shows "\<exists>c off d x. color_function e pc = Inr c \<and> 3 \<le> length c
          \<and> get_brightness_offset (config e) = Inr off \<and> get_duration (config e) = Inr d
          \<and> set_color_result e = Some x \<and> isinstance_OSError x"
  using assms unfolding push_raises_OSError_def
  by (auto split: sum.splits option.splits dest!: not_isl_Inr)

lemma push_succeedsD:
  assumes "push_succeeds pc e"
  shows "\<exists>c off d. color_function e pc = Inr c \<and> 3 \<le> length c
          \<and> get_brightness_offset (config e) = Inr off \<and> get_duration (config e) = Inr d
          \<and> set_color_result e = None"
  using assms unfolding push_succeeds_def
  by (auto split: sum.splits dest!: not_isl_Inr)

lemma failed_pushes_keep_looping:
  assumes "\<not> stopped (thread r)" and "\<forall>e\<in>set fs. push_raises_OSError (prev_color r) e"
  shows "\<exists>r1. (\<forall>rest. match_color_loop r (fs @ rest) = match_color_loop r1 rest)
           \<and> prev_color r1 = prev_color r \<and> thread r1 = thread r
           \<and> continuous r1 = continuous r
           \<and> length (set_color_calls (trace r1)) = length (set_color_calls (trace r)) + length fs
           \<and> filter push_ok (trace r1) = filter push_ok (trace r)"
  using assms
proof (induction fs arbitrary: r)
  case Nil
  show ?case by (intro exI [of _ r]) simp
next
  case (Cons e fs)
  from Cons.prems(2) have "push_raises_OSError (prev_color r) e" by simp
  from push_raises_OSErrorD [OF this] obtain c off d x where
    h: "color_function e (prev_color r) = Inr c" "3 \<le> length c"
       "get_brightness_offset (config e) = Inr off" "get_duration (config e) = Inr d"
       "set_color_result e = Some x" "isinstance_OSError x"
    by blast
  let ?r2 = "logger (r\<lparr>trace := trace r @
      [SetColor (c[2 := min (c ! 2 + off) 65535]) (d * 1000) (continuous r) (Some x)]\<rparr>)
      INFO ''Hit an os error''"
  have step: "match_color_loop r ((e # fs) @ rest) = match_color_loop ?r2 (fs @ rest)" for rest
    using Cons.prems(1) h by (simp add: try_body_push)
  have "\<not> stopped (thread ?r2)" using Cons.prems(1) by simp
  moreover have "\<forall>e\<in>set fs. push_raises_OSError (prev_color ?r2) e"
    using Cons.prems(2) by simp
  ultimately obtain r1 where
    r1: "\<forall>rest. match_color_loop ?r2 (fs @ rest) = match_color_loop r1 rest"
      "prev_color r1 = prev_color ?r2" "thread r1 = thread ?r2"
      "continuous r1 = continuous ?r2"
      "length (set_color_calls (trace r1)) = length (set_color_calls (trace ?r2)) + length fs"
      "filter push_ok (trace r1) = filter push_ok (trace ?r2)"
    using Cons.IH [of ?r2] by blast
  show ?case
    using step r1 by (intro exI [of _ r1]) simp
qed

text \<open>
  Claim C10. In a one-shot run, passes whose \<^verbatim>\<open>set_color\<close> call raises \<^verbatim>\<open>OSError\<close> do not
  stop the worker: after \<open>fs\<close> such passes it is still running. The first pass whose call
  returns stops it; by then \<open>length fs + 1\<close> calls of \<^verbatim>\<open>set_color\<close> have been made, of
  which one returned.
\<close>

theorem one_shot_retries_until_push_succeeds:
  assumes "\<not> continuous r" and "\<not> stopped (thread r)"
    and "\<forall>e\<in>set fs. push_raises_OSError (prev_color r) e"
    and "push_succeeds (prev_color r) ok"
  shows "fst (match_color_loop r fs) = StillRunning
       \<and> (\<exists>r'. match_color_loop r (fs @ ok # rest) = (Finished, r')
             \<and> stopped (thread r')
             \<and> length (set_color_calls (trace r')) =
                 length (set_color_calls (trace r)) + length fs + 1
             \<and> length (filter push_ok (trace r')) = length (filter push_ok (trace r)) + 1)"
proof -
  from failed_pushes_keep_looping [OF assms(2,3)] obtain r1 where
    r1: "\<And>rest. match_color_loop r (fs @ rest) = match_color_loop r1 rest"
      "prev_color r1 = prev_color r" "thread r1 = thread r"
      "continuous r1 = continuous r"
      "length (set_color_calls (trace r1)) = length (set_color_calls (trace r)) + length fs"
      "filter push_ok (trace r1) = filter push_ok (trace r)"
    by blast
  have "match_color_loop r fs = match_color_loop r1 []" using r1(1) [of "[]"] by simp
  then have running: "fst (match_color_loop r fs) = StillRunning"
    using assms(2) r1(3) by simp
  from push_succeedsD [OF assms(4)] obtain c off d where
    h: "color_function ok (prev_color r1) = Inr c" "3 \<le> length c"
       "get_brightness_offset (config ok) = Inr off" "get_duration (config ok) = Inr d"
       "set_color_result ok = None"
    using r1(2) by auto
  let ?r2 = "stop (r1\<lparr>trace := trace r1 @
      [SetColor (c[2 := min (c ! 2 + off) 65535]) (d * 1000) (continuous r1) None],
      prev_color := c[2 := min (c ! 2 + off) 65535]\<rparr>)"
  have "match_color_loop r1 (ok # rest) = (Finished, ?r2)"
    using assms(1,2) r1(3,4) h by (simp add: try_body_push loop_stopped)
  then have "match_color_loop r (fs @ ok # rest) = (Finished, ?r2)"
    using r1(1) by simp
  moreover have "stopped (thread ?r2)" by simp
  moreover have "length (set_color_calls (trace ?r2)) =
      length (set_color_calls (trace r)) + length fs + 1"
    using r1(5) by simp
  moreover have "length (filter push_ok (trace ?r2)) = length (filter push_ok (trace r)) + 1"
    using r1(6) by simp
  ultimately show ?thesis using running by blast
qed

theorem one_shot_retries_until_push_succeeds_witness:
  "\<not> continuous (example_runner False) \<and> \<not> stopped (thread (example_runner False))
   \<and> push_raises_OSError (prev_color (example_runner False)) (example_env 100 1 0 (Some OSError))
   \<and> push_raises_OSError (prev_color (example_runner False))
        (example_env 150 1 0 (Some TimeoutError))
   \<and> push_succeeds (prev_color (example_runner False)) (example_env 200 1 0 None)
   \<and> fst (match_color_loop (example_runner False)
        [example_env 100 1 0 (Some OSError), example_env 150 1 0 (Some TimeoutError)]) = StillRunning
   \<and> (\<exists>r'. match_color_loop (example_runner False)
              [example_env 100 1 0 (Some OSError), example_env 150 1 0 (Some TimeoutError),
               example_env 200 1 0 None, example_env 300 1 0 None] = (Finished, r')
          \<and> stopped (thread r')
          \<and> length (set_color_calls (trace r')) = 3
          \<and> length (filter push_ok (trace r')) = 1)"
proof -
  have a: "push_raises_OSError (prev_color (example_runner False))
      (example_env 100 1 0 (Some OSError))"
    and b: "push_raises_OSError (prev_color (example_runner False))
      (example_env 150 1 0 (Some TimeoutError))"
    and c: "push_succeeds (prev_color (example_runner False)) (example_env 200 1 0 None)"
    by (simp_all add: push_raises_OSError_def push_succeeds_def isinstance_OSError_def)
  have fs: "\<forall>e\<in>set [example_env 100 1 0 (Some OSError), example_env 150 1 0 (Some TimeoutError)].
      push_raises_OSError (prev_color (example_runner False)) e"
    using a b by simp
  have n: "\<not> continuous (example_runner False)"
    and s: "\<not> stopped (thread (example_runner False))" by simp_all
  show ?thesis
    using a b c n s
      one_shot_retries_until_push_succeeds [OF n s fs c, of "[example_env 300 1 0 None]"]
    by (auto simp del: match_color_loop.simps simp add: numeral_3_eq_3)
qed

subsection \<open>Starting the runner\<close>

text \<open>
  What \<^verbatim>\<open>start()\<close> does, by the flags of the current thread object: started with the
  stop flag clear, nothing but an error line in the log; otherwise one more worker.
  After any \<^verbatim>\<open>start()\<close> the thread object is started with its stop flag clear, so a
  second \<^verbatim>\<open>start()\<close> straight after the first launches nothing.
\<close>

lemma start_cases:
  "(started (thread r) \<and> \<not> stopped (thread r) \<longrightarrow>
      start r = logger r ERROR ''Tried to start ColorThread again.''
      \<and> spawned (start r) = spawned r)
   \<and> (stopped (thread r) \<or> \<not> started (thread r) \<longrightarrow> spawned (start r) = spawned r + 1)
   \<and> started (thread (start r)) \<and> \<not> stopped (thread (start r))
   \<and> spawned (start (start r)) = spawned (start r)"
  by (simp add: start_def Let_def stopped_def ColorThread_def logger_def)

text \<open>
  Claim C2 says that \<^verbatim>\<open>start()\<close> while a stop has been requested is a no-op that spawns
  no worker. The code does otherwise. A continuous worker is inside its loop after one
  pass; \<^verbatim>\<open>stop()\<close> sets the flag; \<^verbatim>\<open>start()\<close> now replaces the thread object and launches
  a second worker while the first has not left its loop. The first worker reads the
  stop flag through \<^verbatim>\<open>self.thread\<close>, which is the new object with a clear flag, so it
  goes on pushing as well.
\<close>

theorem start_while_stop_requested_two_workers:
  "fst (match_color (start (init_runner [0, 0, 0, 3500] True)) [0, 0, 0, 3500]
          [example_env 100 1 0 None]) = StillRunning
   \<and> spawned (snd (match_color (start (init_runner [0, 0, 0, 3500] True)) [0, 0, 0, 3500]
          [example_env 100 1 0 None])) = 1
   \<and> stopped (thread (stop (snd (match_color (start (init_runner [0, 0, 0, 3500] True))
          [0, 0, 0, 3500] [example_env 100 1 0 None]))))
   \<and> spawned (start (stop (snd (match_color (start (init_runner [0, 0, 0, 3500] True))
          [0, 0, 0, 3500] [example_env 100 1 0 None])))) = 2
   \<and> fst (match_color_loop (start (stop (snd (match_color (start (init_runner [0, 0, 0, 3500] True))
          [0, 0, 0, 3500] [example_env 100 1 0 None])))) [example_env 200 1 0 None])
       = StillRunning"
  by (simp add: match_color_def try_body_push [of _ _ "[0, 0, 100, 3500]" 0 1]
      try_body_push [of _ _ "[0, 0, 200, 3500]" 0 1]
      start_def stop_def init_runner_def logger_def stopped_def ColorThread_def Let_def)

subsection \<open>Configuration reads\<close>

text \<open>
  Claim C6, amended. The duration and the brightness offset are read from the
  configuration in every pass: of two consecutive passes each uses the values the
  configuration holds during that pass. Nothing else of the configuration is read: a
  pass behaves the same under any configuration that gives the same two values. The
  \<^verbatim>\<open>continuous\<close> flag is an attribute of the runner, set by the constructor; the loop
  never changes it, and it reaches every \<^verbatim>\<open>set_color\<close> call as the rapid argument.
\<close>

theorem tunable_config_read_each_pass:
  "(\<not> stopped (thread r) \<and> continuous r
      \<and> color_function e1 (prev_color r) = Inr c1 \<and> 3 \<le> length c1
      \<and> get_brightness_offset (config e1) = Inr o1 \<and> get_duration (config e1) = Inr d1
      \<and> set_color_result e1 = None
      \<and> color_function e2 (c1[2 := min (c1 ! 2 + o1) 65535]) = Inr c2 \<and> 3 \<le> length c2
      \<and> get_brightness_offset (config e2) = Inr o2 \<and> get_duration (config e2) = Inr d2
      \<and> set_color_result e2 = None
    \<longrightarrow> match_color_loop r [e1, e2] =
          (StillRunning,
           r\<lparr>trace := trace r @
                [SetColor (c1[2 := min (c1 ! 2 + o1) 65535]) (d1 * 1000) True None,
                 SetColor (c2[2 := min (c2 ! 2 + o2) 65535]) (d2 * 1000) True None],
             prev_color := c2[2 := min (c2 ! 2 + o2) 65535]\<rparr>))
   \<and> (get_duration cfg = get_duration (config e)
        \<and> get_brightness_offset cfg = get_brightness_offset (config e)
      \<longrightarrow> try_body r (e\<lparr>config := cfg\<rparr>) = try_body r e)
   \<and> continuous (snd (match_color_loop r es)) = continuous r"
proof -
  have a: "match_color_loop r [e1, e2] =
          (StillRunning,
           r\<lparr>trace := trace r @
                [SetColor (c1[2 := min (c1 ! 2 + o1) 65535]) (d1 * 1000) True None,
                 SetColor (c2[2 := min (c2 ! 2 + o2) 65535]) (d2 * 1000) True None],
             prev_color := c2[2 := min (c2 ! 2 + o2) 65535]\<rparr>)"
    if h: "\<not> stopped (thread r)" "continuous r"
      "color_function e1 (prev_color r) = Inr c1" "3 \<le> length c1"
      "get_brightness_offset (config e1) = Inr o1" "get_duration (config e1) = Inr d1"
      "set_color_result e1 = None"
      "color_function e2 (c1[2 := min (c1 ! 2 + o1) 65535]) = Inr c2" "3 \<le> length c2"
      "get_brightness_offset (config e2) = Inr o2" "get_duration (config e2) = Inr d2"
      "set_color_result e2 = None"
  proof -
    let ?c1 = "c1[2 := min (c1 ! 2 + o1) 65535]"
    let ?r1 = "r\<lparr>trace := trace r @ [SetColor ?c1 (d1 * 1000) (continuous r) None],
                  prev_color := ?c1\<rparr>"
    have 1: "try_body r e1 = (Inr (), ?r1)"
      using h(3-7) by (simp add: try_body_push)
    have 2: "try_body ?r1 e2 =
        (Inr (), ?r1\<lparr>trace := trace ?r1 @
            [SetColor (c2[2 := min (c2 ! 2 + o2) 65535]) (d2 * 1000) (continuous ?r1) None],
          prev_color := c2[2 := min (c2 ! 2 + o2) 65535]\<rparr>)"
      using h(8-12) by (simp add: try_body_push [of e2 ?r1 c2 o2 d2])
    show ?thesis using h(1,2) 1 2 by simp
  qed
  have b: "try_body r (e\<lparr>config := cfg\<rparr>) = try_body r e"
    if "get_duration cfg = get_duration (config e)"
      "get_brightness_offset cfg = get_brightness_offset (config e)"
    using that by (simp add: try_body_def Let_def split: sum.splits option.splits)
  show ?thesis using a b loop_continuous [of r es] by blast
qed

theorem tunable_config_read_each_pass_witness:
  "match_color_loop (example_runner True) [example_env 100 1 0 None, example_env 200 3 (- 50) None] =
     (StillRunning,
      (example_runner True)\<lparr>trace :=
           [SetColor [0, 0, 100, 3500] 1000 True None,
            SetColor [0, 0, 150, 3500] 3000 True None],
         prev_color := [0, 0, 150, 3500]\<rparr>)
   \<and> get_duration example_config_edited = get_duration (config (example_env 200 1 0 None))
   \<and> get_brightness_offset example_config_edited =
       get_brightness_offset (config (example_env 200 1 0 None))
   \<and> try_body (example_runner True) ((example_env 200 1 0 None)\<lparr>config := example_config_edited\<rparr>)
       = try_body (example_runner True) (example_env 200 1 0 None)"
  using tunable_config_read_each_pass [of "example_runner True" "example_env 100 1 0 None"
      "[0, 0, 100, 3500]" 0 1 "example_env 200 3 (- 50) None" "[0, 0, 200, 3500]" "- 50" 3
      example_config_edited "example_env 200 1 0 None" "[]"]
  by (simp del: match_color_loop.simps)

text \<open>
  Claim C6, as stated, fails for \<^verbatim>\<open>continuous\<close>: between two passes of a continuous
  runner the configuration is edited to say \<^verbatim>\<open>continuous = False\<close>; the second pass
  still pushes with rapid true and the loop does not stop.
\<close>

theorem continuous_from_config_counterexample:
  "match_color_loop (example_runner True)
     [example_env 100 1 0 None, (example_env 200 1 0 None)\<lparr>config := example_config_edited\<rparr>] =
     (StillRunning,
      (example_runner True)\<lparr>trace :=
           [SetColor [0, 0, 100, 3500] 1000 True None,
            SetColor [0, 0, 200, 3500] 1000 True None],
         prev_color := [0, 0, 200, 3500]\<rparr>)
   \<and> config_get example_config_edited ''AverageColor'' ''continuous'' = Inr (Other ''False'')"
proof -
  have "config_get example_config_edited ''AverageColor'' ''continuous'' = Inr (Other ''False'')"
    by (simp add: config_get_def example_config_edited_def)
  then show ?thesis
    by (simp add: try_body_push [of _ _ "[0, 0, 100, 3500]" 0 1]
        try_body_push [of _ _ "[0, 0, 200, 3500]" 0 1] example_runner_def stopped_def)
qed

subsection \<open>The samplers\<close>

lemma argmax_bincount:
  assumes "xs \<noteq> []"
  shows "\<exists>v. argmax (bincount xs) = Inr v \<and> v \<le> Max (set xs)"
proof -
  let ?cs = "bincount xs"
  have len: "length ?cs = Suc (Max (set xs))" using assms by (simp add: bincount_def)
  then have ne: "?cs \<noteq> []" by auto
  have "Max (set ?cs) \<in> set ?cs" using ne by (intro Max_in) simp_all
  then have "takeWhile (\<lambda>c. c \<noteq> Max (set ?cs)) ?cs \<noteq> ?cs"
    by (auto simp add: takeWhile_eq_all_conv)
  moreover have "length (takeWhile (\<lambda>c. c \<noteq> Max (set ?cs)) ?cs) \<le> length ?cs"
    by (rule length_takeWhile_le)
  ultimately have "length (takeWhile (\<lambda>c. c \<noteq> Max (set ?cs)) ?cs) < length ?cs"
    by (metis le_neq_implies_less takeWhile_eq_take take_all_iff order_refl)
  then show ?thesis using ne len by (simp add: argmax_def)
qed

lemma encoded_pixel_bound:
  "(case p of (a0, a1, a2) \<Rightarrow> unat a0 * 256 * 256 + unat a1 * 256 + unat a2) < 256 * 256 * 256"
  for p :: pixel
proof -
  obtain a0 a1 a2 where p: "p = (a0, a1, a2)" by (cases p)
  have "unat a0 < 256" "unat a1 < 256" "unat a2 < 256"
    using unsigned_less [of a0] unsigned_less [of a1] unsigned_less [of a2] by simp_all
  then show ?thesis unfolding p by simp
qed

lemma list_of_hsbk_RGBtoHSBK:
  "length (list_of_hsbk (RGBtoHSBK L rgb t)) = 4 \<and> list_of_hsbk (RGBtoHSBK L rgb t) ! 3 = t"
  by (simp add: list_of_hsbk_def RGBtoHSBK_def split: prod.splits)

lemma avg_screen_color_kelvin:
  assumes "avg_screen_color L shot ic = Inr c"
  shows "4 \<le> length ic \<and> length c = 4 \<and> c ! 3 = ic ! 3"
  using assms list_of_hsbk_RGBtoHSBK [of L _ "ic ! 3"]
  by (auto simp add: avg_screen_color_def split: sum.splits if_splits)

lemma dominant_screen_color_kelvin:
  assumes "dominant_screen_color L shot ic = Inr c"
  shows "4 \<le> length ic \<and> length c = 4 \<and> c ! 3 = ic ! 3"
  using assms list_of_hsbk_RGBtoHSBK [of L _ "ic ! 3"]
  by (auto simp add: dominant_screen_color_def Let_def split: sum.splits if_splits)

lemma avg_screen_color_returns:
  assumes "4 \<le> length ic" and "resize L (1, 1) img = Inr small" and "pixels small \<noteq> []"
  shows "\<exists>k. avg_screen_color L (Inr img) ic = Inr k"
  using assms
  by (auto simp add: avg_screen_color_def getpixel_def split: list.splits)

lemma dominant_screen_color_returns:
  assumes "4 \<le> length ic"
    and "resize L (width img div 4, height img div 4) img = Inr small"
    and "pixels small \<noteq> []"
  shows "\<exists>k. dominant_screen_color L (Inr img) ic = Inr k"
proof -
  let ?a1D = "map (\<lambda>(a0, a1, a2). unat a0 * 256 * 256 + unat a1 * 256 + unat a2) (pixels small)"
  have ne: "?a1D \<noteq> []" using assms(3) by simp
  from argmax_bincount [OF ne] obtain v where
    v: "argmax (bincount ?a1D) = Inr v" "v \<le> Max (set ?a1D)" by blast
  have "\<forall>x\<in>set ?a1D. x < 256 * 256 * 256"
    using encoded_pixel_bound by auto
  then have "Max (set ?a1D) < 256 * 256 * 256" using ne by simp
  then have "v < 256 * 256 * 256" using v(2) by simp
  then obtain rgb where "unravel_index v = Inr rgb" by (simp add: unravel_index_def)
  then show ?thesis using assms(1,2) v(1)
    by (simp add: dominant_screen_color_def Let_def)
qed

text \<open>
  Claim C8. Whatever the capture, the libraries and the baseline \<open>initial_color\<close>:
  a colour returned by the average sampler or by the dominant sampler has four
  components and its kelvin component (index 3) is that of \<open>initial_color\<close>. Both
  samplers do return a colour when the baseline has four components and the resized
  image has a pixel.
\<close>

theorem temperature_carry_forward:
  "(avg_screen_color L shot ic = Inr c \<longrightarrow> 4 \<le> length ic \<and> length c = 4 \<and> c ! 3 = ic ! 3)
   \<and> (dominant_screen_color L shot ic = Inr c' \<longrightarrow>
         4 \<le> length ic \<and> length c' = 4 \<and> c' ! 3 = ic ! 3)
   \<and> (4 \<le> length ic \<and> resize L (1, 1) img = Inr small \<and> pixels small \<noteq> [] \<longrightarrow>
         (\<exists>k. avg_screen_color L (Inr img) ic = Inr k \<and> k ! 3 = ic ! 3))
   \<and> (4 \<le> length ic \<and> resize L (width img div 4, height img div 4) img = Inr small'
         \<and> pixels small' \<noteq> [] \<longrightarrow>
         (\<exists>k. dominant_screen_color L (Inr img) ic = Inr k \<and> k ! 3 = ic ! 3))"
proof -
  have a: "\<exists>k. avg_screen_color L (Inr img) ic = Inr k \<and> k ! 3 = ic ! 3"
    if "4 \<le> length ic" "resize L (1, 1) img = Inr small" "pixels small \<noteq> []"
    using avg_screen_color_returns [OF that] avg_screen_color_kelvin by blast
  have d: "\<exists>k. dominant_screen_color L (Inr img) ic = Inr k \<and> k ! 3 = ic ! 3"
    if "4 \<le> length ic" "resize L (width img div 4, height img div 4) img = Inr small'"
      "pixels small' \<noteq> []"
    using dominant_screen_color_returns [OF that] dominant_screen_color_kelvin by blast
  show ?thesis
    using a d avg_screen_color_kelvin [of L shot ic c]
      dominant_screen_color_kelvin [of L shot ic c']
    by blast
qed

theorem temperature_carry_forward_witness:
  "4 \<le> length [1, 2, 3, 4500 :: int]
   \<and> resize example_libs (1, 1) example_image =
       Inr \<lparr>width = 1, height = 1, pixels = [(0, 0, 2)]\<rparr>
   \<and> resize example_libs (width example_image div 4, height example_image div 4) example_image =
       Inr \<lparr>width = 2, height = 1, pixels = [(0, 0, 2), (0, 0, 1)]\<rparr>
   \<and> (\<exists>k. avg_screen_color example_libs (Inr example_image) [1, 2, 3, 4500] = Inr k
          \<and> k ! 3 = 4500)
   \<and> (\<exists>k. dominant_screen_color example_libs (Inr example_image) [1, 2, 3, 4500] = Inr k
          \<and> k ! 3 = 4500)"
  using example_resize
    temperature_carry_forward [of example_libs "Inr example_image" "[1, 2, 3, 4500]"
      "[0, 0, 514, 4500]" "[0, 0, 257, 4500]" example_image
      "\<lparr>width = 1, height = 1, pixels = [(0, 0, 2)]\<rparr>"
      "\<lparr>width = 2, height = 1, pixels = [(0, 0, 2), (0, 0, 1)]\<rparr>"]
  by simp

end
